theory Spec2Isabelle
  imports Main
begin

section \<open>Data model of the gorjun client\<close>

text \<open>
  The client keeps its whole session in one struct, \<open>GorjunServer\<close> (gorjun.go), whose
  methods mutate it in place. Each method is modelled as a function that takes the struct
  and returns the updated one. Go strings are byte strings and \<open>len\<close> counts bytes, as
  \<open>length\<close> does on \<open>string\<close>.
\<close>

record GorjunServer =
  Username :: string
  Email :: string
  Hostname :: string
  GPGDirectory :: string
  Token :: string
  TokenCode :: string
  Passphrase :: string

record GorjunFileHash =
  MD5 :: string
  SHA :: string

text \<open>The field \<open>Id\<close> of \<open>GorjunFile\<close> is named \<open>Id_file\<close>: \<open>Id\<close> is the identity relation of HOL.\<close>

record GorjunFile =
  Id_file :: string
  Size :: int
  Name :: string
  Owner :: "string list"
  Hash :: GorjunFileHash

subsection \<open>Errors and panics\<close>

text \<open>
  A Go \<open>error\<close> built by \<open>fmt.Errorf\<close> is its message. A run-time panic (an index out of
  range, a nil dereference) is not an error value: it is kept apart.
\<close>

datatype failure = Error string | Panic string

subsection \<open>The OpenPGP values the client reads\<close>

text \<open>
  Of the types of \<open>golang.org/x/crypto/openpgp\<close> only the fields that auth.go reads are
  kept: the e-mail of each identity of an entity (\<open>ident.UserId.Email\<close>), and the private
  key of the entity, a pointer that may be nil, with its \<open>Encrypted\<close> flag. \<open>Identities\<close> is a
  Go map from names to identities; a \<open>range\<close> over it visits the identities in an order
  that is not specified, here the order of the list.
\<close>

record Identity =
  IdentityName :: string
  UserId_Email :: string

record PrivateKey =
  Encrypted :: bool
  KeyMaterial :: string

record Entity =
  PrimaryKey :: string
  Identities :: "Identity list"
  PrivateKey :: "PrivateKey option"

subsection \<open>The file system\<close>

text \<open>
  The client only reads files. A path is absent, or present but refusing \<open>os.Open\<close>, or it
  opens, and reading then gives an error or the contents.
\<close>

datatype file_state = Missing | OpenFails string | File "string + string"

subsection \<open>HTTP\<close>

text \<open>
  A request is recorded as what the client hands to \<open>net/http\<close>: the method, the URL and the
  body before its encoding (the form values of \<open>url.Values\<close>, which \<open>Encode\<close> writes
  sorted by key, or the parts written to the multipart writer).
\<close>

datatype part = FormFile string string string | FormField string string

datatype http_body = NoBody | FormBody "(string \<times> string) list" | MultipartBody "part list"

record http_request =
  Method :: string
  URL :: string
  Body :: http_body

text \<open>
  A call of the HTTP client returns an error, or a response with its status code, its status
  line and the result of reading its body with \<open>ioutil.ReadAll\<close>.
\<close>

datatype http_reply = NoResponse string | Response nat string "string + string"

subsection \<open>The environment\<close>

text \<open>
  Everything outside the repository is a parameter: the file system, the value of \<open>$HOME\<close>,
  the server (the reply to a call is a function of all the calls made so far, the last
  one being the current call), and the library functions that the client calls:
  \<open>openpgp.ReadKeyRing\<close> on an opened file, \<open>PrivateKey.Decrypt\<close> (which returns the key as
  it leaves it, and its error), \<open>openpgp.ArmoredDetachSign\<close>, \<open>json.Unmarshal\<close> into a slice
  of \<open>GorjunFile\<close>, the error of \<open>http.NewRequest\<close> for a URL, and \<open>filepath.Base\<close>.
\<close>

record env =
  fs :: "string \<Rightarrow> file_state"
  HOME :: string
  server :: "http_request list \<Rightarrow> http_reply"
  ReadKeyRing :: "string + string \<Rightarrow> string + Entity list"
  Decrypt :: "PrivateKey \<Rightarrow> string \<Rightarrow> PrivateKey \<times> string option"
  ArmoredDetachSign :: "Entity \<Rightarrow> string \<Rightarrow> string + string"
  Unmarshal :: "string \<Rightarrow> string + GorjunFile list"
  NewRequestError :: "string \<Rightarrow> string option"
  Base :: "string \<Rightarrow> string"

text \<open>\<open>os.IsNotExist\<close> of the error of \<open>os.Stat\<close>.\<close>

definition StatIsNotExist :: "env \<Rightarrow> string \<Rightarrow> bool" where
  "StatIsNotExist e path = (fs e path = Missing)"

text \<open>\<open>os.Open\<close>: the error message of a \<open>PathError\<close> is \<open>open <path>: <reason>\<close>.\<close>

definition Open :: "env \<Rightarrow> string \<Rightarrow> string + (string + string)" where
  "Open e path =
     (case fs e path of
        Missing \<Rightarrow> Inl (''open '' @ path @ '': no such file or directory'')
      | OpenFails reason \<Rightarrow> Inl (''open '' @ path @ '': '' @ reason)
      | File rd \<Rightarrow> Inr rd)"

text \<open>One call of the HTTP client: the call is appended to the history and the server answers.\<close>

definition http_do :: "env \<Rightarrow> http_request list \<Rightarrow> http_request \<Rightarrow> http_reply \<times> http_request list" where
  "http_do e h req = (server e (h @ [req]), h @ [req])"

definition http_Get :: "env \<Rightarrow> http_request list \<Rightarrow> string \<Rightarrow> http_reply \<times> http_request list" where
  "http_Get e h u = http_do e h \<lparr>Method = ''GET'', URL = u, Body = NoBody\<rparr>"

definition http_Post :: "env \<Rightarrow> http_request list \<Rightarrow> string \<Rightarrow> http_body \<Rightarrow> http_reply \<times> http_request list" where
  "http_Post e h u b = http_do e h \<lparr>Method = ''POST'', URL = u, Body = b\<rparr>"

definition StatusOK :: nat where
  "StatusOK = 200"

section \<open>auth.go\<close>

subsection \<open>GetAuthTokenCode\<close>

definition GetAuthTokenCode ::
  "env \<Rightarrow> http_request list \<Rightarrow> GorjunServer \<Rightarrow> failure option \<times> GorjunServer \<times> http_request list" where
  "GetAuthTokenCode e h g =
     (case http_Get e h (''https://'' @ Hostname g @ ''/kurjun/rest/auth/token?user='' @ Username g) of
        (NoResponse err, h') \<Rightarrow>
          (Some (Error (''Failed to retrieve unsigned token: '' @ err)), g, h')
      | (Response code status rd, h') \<Rightarrow>
          (case rd of
             Inl err \<Rightarrow> (Some (Error (''Failed to read body from '' @ Hostname g @ '': '' @ err)), g, h')
           | Inr data \<Rightarrow> (None, g\<lparr>TokenCode := data\<rparr>, h')))"

subsection \<open>GetActiveToken\<close>

definition GetActiveToken ::
  "env \<Rightarrow> http_request list \<Rightarrow> GorjunServer \<Rightarrow> string \<Rightarrow> failure option \<times> GorjunServer \<times> http_request list" where
  "GetActiveToken e h g signed0 =
     (let signed = ''-----BEGIN PGP SIGNED MESSAGE-----\<newline>Hash: SHA256\<newline>\<newline>''
                     @ TokenCode g @ ''\<newline>'' @ signed0 @ ''\<newline>'';
          form = [(''message'', signed), (''user'', Username g)]
      in case http_Post e h (''https://'' @ Hostname g @ ''/kurjun/rest/auth/token'') (FormBody form) of
        (NoResponse err, h') \<Rightarrow>
          (Some (Error (''Failed to retrieve active token: '' @ err)), g, h')
      | (Response code status rd, h') \<Rightarrow>
          (case rd of
             Inl err \<Rightarrow> (Some (Error (''Failed to read body from '' @ Hostname g @ '': '' @ err)), g, h')
           | Inr data \<Rightarrow>
               (let g1 = g\<lparr>Token := data\<rparr>
                in if length (Token g1) \<noteq> 64
                   then (let reason = Token g1; g2 = g1\<lparr>Token := ''''\<rparr>
                         in (Some (Error (''Failed to retrieve active token: '' @ reason)), g2, h'))
                   else (None, g1, h'))))"

subsection \<open>getKeyByEmail\<close>

text \<open>The inner loop over the identities of one entity: does it reach the \<open>return\<close>?\<close>

fun identLoop :: "Identity list \<Rightarrow> string \<Rightarrow> bool" where
  "identLoop [] email = False"
| "identLoop (ident # idents) email =
     (if UserId_Email ident = email then True else identLoop idents email)"

text \<open>The outer loop over the keyring; \<open>None\<close> is the nil entity.\<close>

fun getKeyByEmail :: "Entity list \<Rightarrow> string \<Rightarrow> Entity option" where
  "getKeyByEmail [] email = None"
| "getKeyByEmail (entity # keyring) email =
     (if identLoop (Identities entity) email then Some entity else getKeyByEmail keyring email)"

subsection \<open>SignToken\<close>

text \<open>
  The last step of \<open>SignToken\<close>, from the passphrase on. \<open>Decrypt\<close> is a method of the
  private key, which it changes in place, and its error is dropped; called on a nil private
  key it dereferences nil. \<open>ArmoredDetachSign\<close> then receives the entity with the key as
  \<open>Decrypt\<close> left it.
\<close>

definition signWith :: "env \<Rightarrow> GorjunServer \<Rightarrow> Entity \<Rightarrow> string \<Rightarrow> failure + string" where
  "signWith e g privateKey token =
     (if Passphrase g \<noteq> '''' \<and> PrivateKey privateKey = None
      then Inl (Panic ''invalid memory address or nil pointer dereference'')
      else
        (let privateKey' =
               (if Passphrase g \<noteq> ''''
                then privateKey\<lparr>PrivateKey := map_option (\<lambda>k. fst (Decrypt e k (Passphrase g))) (PrivateKey privateKey)\<rparr>
                else privateKey)
         in case ArmoredDetachSign e privateKey' token of
              Inl err \<Rightarrow> Inl (Error (''Failed to sign token: '' @ err))
            | Inr out \<Rightarrow> Inr out))"

definition SignToken :: "env \<Rightarrow> GorjunServer \<Rightarrow> string \<Rightarrow> failure + string" where
  "SignToken e g token =
     (if GPGDirectory g = '''' then Inl (Error ''GPG Directory was not specified'')
      else
        (let pubringPath0 = GPGDirectory g @ ''/pubring.gpg'';
             pubringPath = (if StatIsNotExist e pubringPath0 then GPGDirectory g @ ''/pubring.kbx''
                            else pubringPath0)
         in if StatIsNotExist e pubringPath then Inl (Error ''Can't find pubring.gpg nor pubring.kbx'')
            else
              (case Open e (GPGDirectory g @ ''/pubring.gpg'') of
                 Inl err \<Rightarrow> Inl (Error (''Failed to open public keyring file: '' @ err))
               | Inr pukFile \<Rightarrow>
                  (case ReadKeyRing e pukFile of
                     Inl err \<Rightarrow> Inl (Error (''Failed to read public keyring: '' @ err))
                   | Inr pubring \<Rightarrow>
                      (case getKeyByEmail pubring (Email g) of
                         None \<Rightarrow> Inl (Error (''Public key for '' @ Email g @ '' was not found''))
                       | Some publicKey \<Rightarrow>
                          (case Open e (GPGDirectory g @ ''/secring.gpg'') of
                             Inl err \<Rightarrow> Inl (Error (''Failed to open private keyring file: '' @ err))
                           | Inr priFile \<Rightarrow>
                              (case ReadKeyRing e priFile of
                                 Inl err \<Rightarrow> Inl (Error (''Failed to read private keyring: '' @ err))
                               | Inr secring \<Rightarrow>
                                  (case getKeyByEmail secring (Email g) of
                                     None \<Rightarrow> Inl (Error (''Private key for '' @ Email g @ '' was not found''))
                                   | Some privateKey \<Rightarrow> signWith e g privateKey token))))))))"

subsection \<open>AuthenticateUser\<close>

definition AuthenticateUser ::
  "env \<Rightarrow> http_request list \<Rightarrow> GorjunServer \<Rightarrow> string \<Rightarrow> string \<Rightarrow> string \<Rightarrow> string
     \<Rightarrow> failure option \<times> GorjunServer \<times> http_request list" where
  "AuthenticateUser e h g username email passphrase gpgdir =
     (let g1 = g\<lparr>Username := username, Email := email, Passphrase := passphrase\<rparr>;
          g2 = (if gpgdir \<noteq> '''' then g1\<lparr>GPGDirectory := gpgdir\<rparr>
                else g1\<lparr>GPGDirectory := HOME e @ ''/.gnupg''\<rparr>)
      in case GetAuthTokenCode e h g2 of
           (Some err, g3, h1) \<Rightarrow> (Some err, g3, h1)
         | (None, g3, h1) \<Rightarrow>
            (case SignToken e g3 (TokenCode g3) of
               Inl err \<Rightarrow> (Some err, g3, h1)
             | Inr sign \<Rightarrow> GetActiveToken e h1 g3 sign))"

section \<open>gorjun.go\<close>

definition GetFileByName ::
  "env \<Rightarrow> http_request list \<Rightarrow> GorjunServer \<Rightarrow> string \<Rightarrow> (failure + GorjunFile list) \<times> http_request list" where
  "GetFileByName e h g filename =
     (case http_Get e h (''https://'' @ Hostname g @ ''/kurjun/rest/raw/info?name='' @ filename) of
        (NoResponse err, h') \<Rightarrow>
          (Inl (Error (''Failed to retrieve file information from '' @ Hostname g @ '': '' @ err)), h')
      | (Response code status rd, h') \<Rightarrow>
          (case rd of
             Inl err \<Rightarrow> (Inl (Error (''Failed to read body from '' @ Hostname g @ '': '' @ err)), h')
           | Inr data \<Rightarrow>
              (case Unmarshal e data of
                 Inl err \<Rightarrow> (Inl (Error (''Failed to unmarshal contents from '' @ Hostname g @ '': '' @ err)), h')
               | Inr f \<Rightarrow> (Inr f, h'))))"

definition ListUserFiles ::
  "env \<Rightarrow> http_request list \<Rightarrow> GorjunServer \<Rightarrow> (failure + GorjunFile list) \<times> http_request list" where
  "ListUserFiles e h g =
     (case http_Get e h (''https://'' @ Hostname g @ ''/kurjun/rest/raw/info?owner='' @ Username g) of
        (NoResponse err, h') \<Rightarrow>
          (Inl (Error (''Failed to retrieve file list from '' @ Hostname g @ '': '' @ err)), h')
      | (Response code status rd, h') \<Rightarrow>
          (case rd of
             Inl err \<Rightarrow> (Inl (Error (''Failed to read body from '' @ Hostname g @ '': '' @ err)), h')
           | Inr data \<Rightarrow>
              (case Unmarshal e data of
                 Inl err \<Rightarrow> (Inl (Error (''Failed to unmarshal contents from '' @ Hostname g @ '': '' @ err)), h')
               | Inr rf \<Rightarrow> (Inr rf, h'))))"

text \<open>
  \<open>http.NewRequest\<close> fails on a URL that does not parse; otherwise the request is built.
\<close>

definition NewRequest :: "env \<Rightarrow> string \<Rightarrow> string \<Rightarrow> http_body \<Rightarrow> string + http_request" where
  "NewRequest e m u b =
     (case NewRequestError e u of
        Some err \<Rightarrow> Inl err
      | None \<Rightarrow> Inr \<lparr>Method = m, URL = u, Body = b\<rparr>)"

definition RemoveFileByID ::
  "env \<Rightarrow> http_request list \<Rightarrow> GorjunServer \<Rightarrow> string \<Rightarrow> failure option \<times> http_request list" where
  "RemoveFileByID e h g ID =
     (case NewRequest e ''DELETE''
             (''https://'' @ Hostname g @ ''/kurjun/rest/raw/delete?id='' @ ID @ ''&token='' @ Token g) NoBody of
        Inl err \<Rightarrow> (Some (Error (''Failed to remove file ['' @ ID @ '']: '' @ err)), h)
      | Inr req \<Rightarrow>
         (case http_do e h req of
            (NoResponse err, h') \<Rightarrow> (Some (Error (''Failed to remove file: '' @ err)), h')
          | (Response code status rd, h') \<Rightarrow>
              (if code \<noteq> StatusOK
               then (Some (Error (''Can't remove file - HTTP request returned '' @ status @ '' code'')), h')
               else (None, h'))))"

text \<open>
  \<open>RemoveFile\<close> reads \<open>file[0]\<close> with no test of the length: on an empty (or nil) slice the
  Go run time panics.
\<close>

definition RemoveFile ::
  "env \<Rightarrow> http_request list \<Rightarrow> GorjunServer \<Rightarrow> string \<Rightarrow> failure option \<times> http_request list" where
  "RemoveFile e h g filename =
     (case GetFileByName e h g filename of
        (Inl (Error err), h1) \<Rightarrow> (Some (Error (''Failed to get file: '' @ err)), h1)
      | (Inl (Panic p), h1) \<Rightarrow> (Some (Panic p), h1)
      | (Inr file, h1) \<Rightarrow>
         (case file of
            [] \<Rightarrow> (Some (Panic ''index out of range [0] with length 0''), h1)
          | f0 # rest \<Rightarrow> RemoveFileByID e h1 g (Id_file f0)))"

text \<open>
  \<open>UploadFile\<close>: the writes to the multipart writer go to a \<open>bytes.Buffer\<close>, which does not
  fail; \<open>io.Copy\<close> fails when reading the opened file does.
\<close>

definition UploadFile ::
  "env \<Rightarrow> http_request list \<Rightarrow> GorjunServer \<Rightarrow> string \<Rightarrow> (failure + string) \<times> http_request list" where
  "UploadFile e h g filename =
     (if StatIsNotExist e filename then (Inl (Error (filename @ '' not found'')), h)
      else
        (case Open e filename of
           Inl err \<Rightarrow> (Inl (Error (''Failed to open file: '' @ err)), h)
         | Inr rd \<Rightarrow>
            (case rd of
               Inl err \<Rightarrow> (Inl (Error (''Failed to copy file contents: '' @ err)), h)
             | Inr contents \<Rightarrow>
                (case NewRequest e ''POST'' (''https://'' @ Hostname g @ ''/kurjun/rest/raw/upload'')
                        (MultipartBody [FormFile ''file'' (Base e filename) contents,
                                        FormField ''token'' (Token g)]) of
                   Inl err \<Rightarrow> (Inl (Error (''Failed to create HTTP request: '' @ err)), h)
                 | Inr req \<Rightarrow>
                    (case http_do e h req of
                       (NoResponse err, h') \<Rightarrow> (Inl (Error (''Failed to execute HTTP request: '' @ err)), h')
                     | (Response code status res, h') \<Rightarrow>
                        (if code \<noteq> StatusOK
                         then (Inl (Error (''Upload failed. Server returned '' @ status @ '' error'')), h')
                         else
                           (case res of
                              Inl err \<Rightarrow> (Inl (Error (''Failed to read response body: '' @ err)), h')
                            | Inr response \<Rightarrow> (Inr response, h'))))))))"

definition DownloadFile ::
  "env \<Rightarrow> http_request list \<Rightarrow> GorjunServer \<Rightarrow> string \<Rightarrow> string \<Rightarrow> failure option \<times> GorjunServer \<times> http_request list" where
  "DownloadFile e h g filename outputDirectory = (None, g, h)"

definition DownloadFileByID ::
  "env \<Rightarrow> http_request list \<Rightarrow> GorjunServer \<Rightarrow> string \<Rightarrow> string \<Rightarrow> failure option \<times> GorjunServer \<times> http_request list" where
  "DownloadFileByID e h g ID outputDirectory = (None, g, h)"

section \<open>A second reading of the specification's words\<close>

text \<open>
  Key lookup as the specification words it: an entity matches when any of its bound
  identities carries exactly the target e-mail, and the first match in ring order wins.
\<close>

definition entityMatches :: "string \<Rightarrow> Entity \<Rightarrow> bool" where
  "entityMatches email entity = list_ex (\<lambda>ident. UserId_Email ident = email) (Identities entity)"

definition firstMatch :: "Entity list \<Rightarrow> string \<Rightarrow> Entity option" where
  "firstMatch keyring email = List.find (entityMatches email) keyring"

text \<open>
  The signed envelope as the specification words it: the signed-message header line, the
  hash line, a blank line, the challenge code, a newline, the signature block, a newline.
\<close>

definition headerLine :: string where
  "headerLine = ''-----BEGIN PGP SIGNED MESSAGE-----'' @ ''\<newline>''"

definition hashLine :: string where
  "hashLine = ''Hash: SHA256'' @ ''\<newline>''"

definition blankLine :: string where
  "blankLine = ''\<newline>''"

definition SignedEnvelope :: "string \<Rightarrow> string \<Rightarrow> string" where
  "SignedEnvelope code signature =
     headerLine @ hashLine @ blankLine @ code @ ''\<newline>'' @ signature @ ''\<newline>''"

section \<open>Example environments\<close>

text \<open>
  Concrete environments on which the model is run. The file system is a table of paths;
  the server answers the n-th call with the n-th reply of a script and refuses the
  connection afterwards. The library functions are tables that agree with the libraries on
  the inputs used: the keyring parser knows three files, \<open>Decrypt\<close> unlocks an encrypted
  key with one passphrase and reports a checksum failure otherwise, \<open>ArmoredDetachSign\<close>
  refuses an entity whose private key is nil or encrypted, and the JSON decoder knows the
  empty array, \<open>null\<close> and an array of two records.
\<close>

definition filesOf :: "(string \<times> file_state) list \<Rightarrow> string \<Rightarrow> file_state" where
  "filesOf tbl path = (case map_of tbl path of None \<Rightarrow> Missing | Some st \<Rightarrow> st)"

definition scripted :: "http_reply list \<Rightarrow> http_request list \<Rightarrow> http_reply" where
  "scripted replies h =
     (if 0 < length h \<and> length h \<le> length replies then replies ! (length h - 1)
      else NoResponse ''dial tcp: connection refused'')"

definition alice :: Identity where
  "alice = \<lparr>IdentityName = ''Alice <alice@example.com>'', UserId_Email = ''alice@example.com''\<rparr>"

definition aliceWork :: Identity where
  "aliceWork = \<lparr>IdentityName = ''Alice <alice@work.example>'', UserId_Email = ''alice@work.example''\<rparr>"

definition bob :: Identity where
  "bob = \<lparr>IdentityName = ''Bob <bob@example.com>'', UserId_Email = ''bob@example.com''\<rparr>"

definition lockedKey :: PrivateKey where
  "lockedKey = \<lparr>Encrypted = True, KeyMaterial = ''alice-secret''\<rparr>"

definition bobEntity :: Entity where
  "bobEntity = \<lparr>PrimaryKey = ''B0B1'', Identities = [bob], PrivateKey = None\<rparr>"

definition examplePubring :: "Entity list" where
  "examplePubring =
     [bobEntity,
      \<lparr>PrimaryKey = ''A11CE1'', Identities = [aliceWork, alice], PrivateKey = None\<rparr>,
      \<lparr>PrimaryKey = ''A11CE2'', Identities = [alice], PrivateKey = None\<rparr>]"

definition aliceSecret :: Entity where
  "aliceSecret = \<lparr>PrimaryKey = ''A11CE1'', Identities = [aliceWork, alice], PrivateKey = Some lockedKey\<rparr>"

definition exampleSecring :: "Entity list" where
  "exampleSecring = [aliceSecret]"

definition exampleReadKeyRing :: "string + string \<Rightarrow> string + Entity list" where
  "exampleReadKeyRing rd =
     (case rd of
        Inl err \<Rightarrow> Inl err
      | Inr data \<Rightarrow>
          (if data = ''PUBRING'' then Inr examplePubring
           else if data = ''SECRING'' then Inr exampleSecring
           else if data = ''BOBRING'' then Inr [bobEntity]
           else Inl ''openpgp: invalid data: tag byte does not have MSB set''))"

definition exampleDecrypt :: "PrivateKey \<Rightarrow> string \<Rightarrow> PrivateKey \<times> string option" where
  "exampleDecrypt k passphrase =
     (if \<not> Encrypted k then (k, None)
      else if passphrase = ''correct horse'' then (k\<lparr>Encrypted := False\<rparr>, None)
      else (k, Some ''openpgp: invalid data: private key checksum failure''))"

definition exampleSign :: "Entity \<Rightarrow> string \<Rightarrow> string + string" where
  "exampleSign entity message =
     (case PrivateKey entity of
        None \<Rightarrow> Inl ''openpgp: invalid argument: signing key doesn't have a private key''
      | Some k \<Rightarrow>
          (if Encrypted k then Inl ''openpgp: invalid argument: signing key is encrypted''
           else Inr (''-----BEGIN PGP SIGNATURE-----\<newline>\<newline>'' @ PrimaryKey entity @ '':'' @ message
                       @ ''\<newline>-----END PGP SIGNATURE-----'')))"

definition quoted :: "string \<Rightarrow> string" where
  "quoted s = [CHR 0x22] @ s @ [CHR 0x22]"

definition twoFilesJSON :: string where
  "twoFilesJSON = ''[{'' @ quoted ''id'' @ '':'' @ quoted ''f-1'' @ ''},{'' @ quoted ''id'' @ '':''
                    @ quoted ''f-2'' @ ''}]''"

definition fileWithId :: "string \<Rightarrow> GorjunFile" where
  "fileWithId i = \<lparr>Id_file = i, Size = 0, Name = [], Owner = [], Hash = \<lparr>MD5 = [], SHA = []\<rparr>\<rparr>"

definition exampleUnmarshal :: "string \<Rightarrow> string + GorjunFile list" where
  "exampleUnmarshal data =
     (if data = ''[]'' \<or> data = ''null'' then Inr []
      else if data = twoFilesJSON then Inr [fileWithId ''f-1'', fileWithId ''f-2'']
      else Inl ''invalid character'')"

definition exampleEnv :: "(string \<times> file_state) list \<Rightarrow> http_reply list \<Rightarrow> env" where
  "exampleEnv tbl replies =
     \<lparr>fs = filesOf tbl, HOME = ''/home/alice'', server = scripted replies,
      ReadKeyRing = exampleReadKeyRing, Decrypt = exampleDecrypt, ArmoredDetachSign = exampleSign,
      Unmarshal = exampleUnmarshal, NewRequestError = (\<lambda>u. None), Base = (\<lambda>path. path)\<rparr>"

definition exampleServer :: GorjunServer where
  "exampleServer =
     \<lparr>Username = ''alice'', Email = ''alice@example.com'', Hostname = ''cdn.example.org:8338'',
      GPGDirectory = ''/home/alice/.gnupg'', Token = [], TokenCode = [], Passphrase = []\<rparr>"

text \<open>A key directory of GnuPG 2.1 or later: a \<open>pubring.kbx\<close> and no \<open>pubring.gpg\<close>.\<close>

definition kbxOnly :: "(string \<times> file_state) list" where
  "kbxOnly =
     [(''/home/alice/.gnupg/pubring.kbx'', File (Inr ''PUBRING'')),
      (''/home/alice/.gnupg/secring.gpg'', File (Inr ''SECRING''))]"

text \<open>A key directory of an older GnuPG: \<open>pubring.gpg\<close> and \<open>secring.gpg\<close>.\<close>

definition classicDir :: "(string \<times> file_state) list" where
  "classicDir =
     [(''/home/alice/.gnupg/pubring.gpg'', File (Inr ''PUBRING'')),
      (''/home/alice/.gnupg/secring.gpg'', File (Inr ''SECRING''))]"

section \<open>The calls the methods make\<close>

text \<open>Names for the HTTP client calls of the methods, used to state what a method sent.\<close>

definition challengeCall :: "GorjunServer \<Rightarrow> http_request" where
  "challengeCall g =
     \<lparr>Method = ''GET'', URL = ''https://'' @ Hostname g @ ''/kurjun/rest/auth/token?user='' @ Username g,
      Body = NoBody\<rparr>"

definition tokenCall :: "GorjunServer \<Rightarrow> string \<Rightarrow> http_request" where
  "tokenCall g signed =
     \<lparr>Method = ''POST'', URL = ''https://'' @ Hostname g @ ''/kurjun/rest/auth/token'',
      Body = FormBody [(''message'', SignedEnvelope (TokenCode g) signed), (''user'', Username g)]\<rparr>"

definition lookupCall :: "GorjunServer \<Rightarrow> string \<Rightarrow> http_request" where
  "lookupCall g filename =
     \<lparr>Method = ''GET'', URL = ''https://'' @ Hostname g @ ''/kurjun/rest/raw/info?name='' @ filename,
      Body = NoBody\<rparr>"

definition deleteCall :: "GorjunServer \<Rightarrow> string \<Rightarrow> http_request" where
  "deleteCall g ID =
     \<lparr>Method = ''DELETE'',
      URL = ''https://'' @ Hostname g @ ''/kurjun/rest/raw/delete?id='' @ ID @ ''&token='' @ Token g,
      Body = NoBody\<rparr>"

definition uploadCall :: "env \<Rightarrow> GorjunServer \<Rightarrow> string \<Rightarrow> string \<Rightarrow> http_request" where
  "uploadCall e g filename contents =
     \<lparr>Method = ''POST'', URL = ''https://'' @ Hostname g @ ''/kurjun/rest/raw/upload'',
      Body = MultipartBody [FormFile ''file'' (Base e filename) contents, FormField ''token'' (Token g)]\<rparr>"

text \<open>A token of 64 characters, and a file to upload.\<close>

definition exampleToken :: string where
  "exampleToken = ''0123456789abcdef0123456789abcdef0123456789abcdef0123456789abcdef''"

definition uploadDir :: "(string \<times> file_state) list" where
  "uploadDir = [(''/tmp/libgorjun-test'', File (Inr ''This is a test file\<newline>''))]"

section \<open>What each method sends\<close>

lemma SignedEnvelope_unfold:
  "SignedEnvelope code signature =
     ''-----BEGIN PGP SIGNED MESSAGE-----\<newline>Hash: SHA256\<newline>\<newline>'' @ code @ ''\<newline>'' @ signature @ ''\<newline>''"
  by (simp add: SignedEnvelope_def headerLine_def hashLine_def blankLine_def)

lemma GetAuthTokenCode_calls: "snd (snd (GetAuthTokenCode e h g)) = h @ [challengeCall g]"
  by (simp add: GetAuthTokenCode_def http_Get_def http_do_def challengeCall_def
           split: http_reply.splits sum.splits)

lemma GetActiveToken_calls: "snd (snd (GetActiveToken e h g signed)) = h @ [tokenCall g signed]"
  by (simp add: GetActiveToken_def http_Post_def http_do_def tokenCall_def SignedEnvelope_unfold Let_def
           split: http_reply.splits sum.splits)

lemma GetFileByName_calls: "snd (GetFileByName e h g filename) = h @ [lookupCall g filename]"
  by (simp add: GetFileByName_def http_Get_def http_do_def lookupCall_def
           split: http_reply.splits sum.splits)

lemma RemoveFileByID_calls:
  assumes "NewRequestError e (URL (deleteCall g ID)) = None"
  shows "snd (RemoveFileByID e h g ID) = h @ [deleteCall g ID]"
  using assms
  by (simp add: RemoveFileByID_def NewRequest_def http_do_def deleteCall_def split: http_reply.splits)

lemma UploadFile_calls:
  assumes "fs e filename = File (Inr contents)"
    and "NewRequestError e (URL (uploadCall e g filename contents)) = None"
  shows "snd (UploadFile e h g filename) = h @ [uploadCall e g filename contents]"
  using assms
  by (simp add: UploadFile_def StatIsNotExist_def Open_def NewRequest_def http_do_def uploadCall_def
           split: http_reply.splits sum.splits)

section \<open>Key resolution: the public keyring\<close>

text \<open>
  C1. In a key directory that holds a \<open>pubring.kbx\<close> and no \<open>pubring.gpg\<close>, \<open>SignToken\<close> is
  claimed to find the public key through the fallback path. It does not: the fallback path
  is computed and tested for existence, but the file that is opened is always
  \<open>pubring.gpg\<close>, so \<open>SignToken\<close> stops with the error of opening the public keyring, for
  every such directory, whatever the \<open>pubring.kbx\<close> holds.
\<close>

theorem SignToken_kbx_only_cannot_open:
  assumes "GPGDirectory g \<noteq> ''''"
    and "fs e (GPGDirectory g @ ''/pubring.gpg'') = Missing"
    and "fs e (GPGDirectory g @ ''/pubring.kbx'') \<noteq> Missing"
  shows "SignToken e g token =
           Inl (Error (''Failed to open public keyring file: open '' @ GPGDirectory g
                         @ ''/pubring.gpg: no such file or directory''))"
  using assms by (simp add: SignToken_def StatIsNotExist_def Open_def)

text \<open>
  The directory \<open>kbxOnly\<close>: its \<open>pubring.kbx\<close> parses to a keyring that holds a key for the
  e-mail of the identity, and \<open>SignToken\<close> fails to open the public keyring.
\<close>

theorem SignToken_kbx_only_cannot_open_witness:
  "GPGDirectory exampleServer \<noteq> ''''
   \<and> fs (exampleEnv kbxOnly []) (GPGDirectory exampleServer @ ''/pubring.gpg'') = Missing
   \<and> fs (exampleEnv kbxOnly []) (GPGDirectory exampleServer @ ''/pubring.kbx'') = File (Inr ''PUBRING'')
   \<and> ReadKeyRing (exampleEnv kbxOnly []) (Inr ''PUBRING'') = Inr examplePubring
   \<and> getKeyByEmail examplePubring (Email exampleServer) \<noteq> None
   \<and> SignToken (exampleEnv kbxOnly []) exampleServer ''111'' =
       Inl (Error ''Failed to open public keyring file: open /home/alice/.gnupg/pubring.gpg: no such file or directory'')"
  using SignToken_kbx_only_cannot_open [of exampleServer "exampleEnv kbxOnly []" "''111''"]
  by (simp add: exampleEnv_def exampleServer_def kbxOnly_def filesOf_def exampleReadKeyRing_def
        examplePubring_def bobEntity_def bob_def alice_def aliceWork_def)

section \<open>Removing a file by name\<close>

text \<open>
  C2. When the lookup by name succeeds with no record, \<open>RemoveFile\<close> is claimed to return an
  error of the file-not-found kind. It does not: it reads element 0 of the empty slice, and
  the run time panics; no error value is returned.
\<close>

theorem RemoveFile_empty_lookup_panics:
  assumes "GetFileByName e h g filename = (Inr [], h1)"
  shows "RemoveFile e h g filename = (Some (Panic ''index out of range [0] with length 0''), h1)"
  using assms by (simp add: RemoveFile_def)

text \<open>A server that answers the lookup with the empty JSON array.\<close>

theorem RemoveFile_empty_lookup_panics_witness:
  "GetFileByName (exampleEnv [] [Response 200 ''200 OK'' (Inr ''[]'')]) [] exampleServer ''libgorjun-test''
     = (Inr [], [lookupCall exampleServer ''libgorjun-test''])
   \<and> RemoveFile (exampleEnv [] [Response 200 ''200 OK'' (Inr ''[]'')]) [] exampleServer ''libgorjun-test''
     = (Some (Panic ''index out of range [0] with length 0''), [lookupCall exampleServer ''libgorjun-test''])"
proof -
  have look:
    "GetFileByName (exampleEnv [] [Response 200 ''200 OK'' (Inr ''[]'')]) [] exampleServer ''libgorjun-test''
       = (Inr [], [lookupCall exampleServer ''libgorjun-test''])"
    by (simp add: GetFileByName_def http_Get_def http_do_def exampleEnv_def scripted_def
          exampleUnmarshal_def lookupCall_def)
  from RemoveFile_empty_lookup_panics [OF look] look show ?thesis by simp
qed

text \<open>
  C8. When the lookup by name returns a sequence that is not empty, \<open>RemoveFile\<close> is
  \<open>RemoveFileByID\<close> on the id of its first record, whatever follows it: after the lookup call
  the only call made is the DELETE of that id.
\<close>

theorem RemoveFile_removes_first:
  assumes "GetFileByName e h g filename = (Inr (f0 # rest), h1)"
  shows "RemoveFile e h g filename = RemoveFileByID e h1 g (Id_file f0)
         \<and> h1 = h @ [lookupCall g filename]
         \<and> (NewRequestError e (URL (deleteCall g (Id_file f0))) = None \<longrightarrow>
              snd (RemoveFile e h g filename) = h @ [lookupCall g filename, deleteCall g (Id_file f0)])"
proof -
  have first: "RemoveFile e h g filename = RemoveFileByID e h1 g (Id_file f0)"
    using assms by (simp add: RemoveFile_def)
  have hist: "h1 = h @ [lookupCall g filename]"
    using GetFileByName_calls [of e h g filename] assms by simp
  show ?thesis
    using first hist RemoveFileByID_calls [of e g "Id_file f0" h1] by simp
qed

text \<open>Two records share the name; only the first, \<open>f-1\<close>, is deleted.\<close>

theorem RemoveFile_removes_first_witness:
  "GetFileByName (exampleEnv [] [Response 200 ''200 OK'' (Inr twoFilesJSON), Response 200 ''200 OK'' (Inr '''')])
       [] exampleServer ''libgorjun-test''
     = (Inr [fileWithId ''f-1'', fileWithId ''f-2''], [lookupCall exampleServer ''libgorjun-test''])
   \<and> NewRequestError (exampleEnv [] [Response 200 ''200 OK'' (Inr twoFilesJSON), Response 200 ''200 OK'' (Inr '''')])
        (URL (deleteCall exampleServer (Id_file (fileWithId ''f-1'')))) = None
   \<and> snd (RemoveFile (exampleEnv [] [Response 200 ''200 OK'' (Inr twoFilesJSON), Response 200 ''200 OK'' (Inr '''')])
        [] exampleServer ''libgorjun-test'')
     = [lookupCall exampleServer ''libgorjun-test'', deleteCall exampleServer ''f-1'']"
proof -
  let ?e = "exampleEnv [] [Response 200 ''200 OK'' (Inr twoFilesJSON), Response 200 ''200 OK'' (Inr '''')]"
  have look: "GetFileByName ?e [] exampleServer ''libgorjun-test''
                = (Inr (fileWithId ''f-1'' # [fileWithId ''f-2'']), [lookupCall exampleServer ''libgorjun-test''])"
    by (simp add: GetFileByName_def http_Get_def http_do_def exampleEnv_def scripted_def
          exampleUnmarshal_def lookupCall_def twoFilesJSON_def quoted_def)
  have ok: "NewRequestError ?e (URL (deleteCall exampleServer (Id_file (fileWithId ''f-1'')))) = None"
    by (simp add: exampleEnv_def)
  have sent: "snd (RemoveFile ?e [] exampleServer ''libgorjun-test'')
                = [] @ [lookupCall exampleServer ''libgorjun-test'',
                        deleteCall exampleServer (Id_file (fileWithId ''f-1''))]"
    using RemoveFile_removes_first [OF look] ok by blast
  have "Id_file (fileWithId ''f-1'') = ''f-1''"
    by (simp add: fileWithId_def)
  with sent look ok show ?thesis by simp
qed

section \<open>Download\<close>

text \<open>
  C9. \<open>DownloadFile\<close> and \<open>DownloadFileByID\<close> return nil for every input; they make no call of
  the HTTP client and leave the session struct as it was.
\<close>

theorem Download_is_noop:
  "DownloadFile e h g filename outputDirectory = (None, g, h)
   \<and> DownloadFileByID e h g ID outputDirectory = (None, g, h)"
  by (simp add: DownloadFile_def DownloadFileByID_def)

section \<open>The token exchange\<close>

text \<open>
  C6. For every challenge code and signature string, the one call that \<open>GetActiveToken\<close>
  makes is a POST whose \<open>message\<close> value is the signed envelope: the signed-message header
  line, the hash line, a blank line, the challenge code, a newline, the signature block and
  a trailing newline, in that order.
\<close>

theorem GetActiveToken_submits_envelope:
  "snd (snd (GetActiveToken e h g signed)) =
     h @ [\<lparr>Method = ''POST'', URL = ''https://'' @ Hostname g @ ''/kurjun/rest/auth/token'',
           Body = FormBody [(''message'', SignedEnvelope (TokenCode g) signed), (''user'', Username g)]\<rparr>]
   \<and> SignedEnvelope (TokenCode g) signed =
       ''-----BEGIN PGP SIGNED MESSAGE-----\<newline>'' @ ''Hash: SHA256\<newline>'' @ ''\<newline>''
         @ TokenCode g @ ''\<newline>'' @ signed @ ''\<newline>''"
  by (simp add: GetActiveToken_def http_Post_def http_do_def SignedEnvelope_unfold Let_def
        split: http_reply.splits sum.splits)

section \<open>The token exchange: the response\<close>

text \<open>
  C3, as claimed, fails in its second half: on a body whose length is not 64 the message of
  the error is not the body, it is the body after a fixed prefix.
\<close>

theorem GetActiveToken_message_counterexample:
  "fst (GetActiveToken (exampleEnv [] [Response 200 ''200 OK'' (Inr ''denied'')]) [] exampleServer ''SIG'')
     = Some (Error ''Failed to retrieve active token: denied'')
   \<and> Error ''Failed to retrieve active token: denied'' \<noteq> Error ''denied''"
  by (simp add: GetActiveToken_def http_Post_def http_do_def exampleEnv_def scripted_def Let_def)

text \<open>
  C3, amended. For every body returned by the token-exchange POST: if its length is 64,
  \<open>GetActiveToken\<close> succeeds and stores that string as \<open>Token\<close>, and it is the token that
  \<open>RemoveFileByID\<close> puts in its URL and \<open>UploadFile\<close> in its \<open>token\<close> form field; if its
  length is not 64, \<open>GetActiveToken\<close> returns the error whose message is
  \<open>Failed to retrieve active token: \<close> followed by the body, verbatim.
\<close>

theorem GetActiveToken_by_length:
  assumes "server e (h @ [tokenCall g signed]) = Response code status (Inr body)"
  shows "(length body = 64 \<longrightarrow>
            GetActiveToken e h g signed = (None, g\<lparr>Token := body\<rparr>, h @ [tokenCall g signed])
            \<and> (\<forall>h' ID. NewRequestError e (URL (deleteCall (g\<lparr>Token := body\<rparr>) ID)) = None \<longrightarrow>
                  snd (RemoveFileByID e h' (g\<lparr>Token := body\<rparr>) ID) =
                    h' @ [\<lparr>Method = ''DELETE'',
                           URL = ''https://'' @ Hostname g @ ''/kurjun/rest/raw/delete?id='' @ ID @ ''&token='' @ body,
                           Body = NoBody\<rparr>])
            \<and> (\<forall>h' filename contents.
                  fs e filename = File (Inr contents)
                  \<and> NewRequestError e (URL (uploadCall e (g\<lparr>Token := body\<rparr>) filename contents)) = None \<longrightarrow>
                  snd (UploadFile e h' (g\<lparr>Token := body\<rparr>) filename) =
                    h' @ [\<lparr>Method = ''POST'', URL = ''https://'' @ Hostname g @ ''/kurjun/rest/raw/upload'',
                           Body = MultipartBody [FormFile ''file'' (Base e filename) contents,
                                                 FormField ''token'' body]\<rparr>]))
         \<and> (length body \<noteq> 64 \<longrightarrow>
              GetActiveToken e h g signed =
                (Some (Error (''Failed to retrieve active token: '' @ body)), g\<lparr>Token := ''''\<rparr>,
                 h @ [tokenCall g signed]))"
proof -
  have run: "GetActiveToken e h g signed =
               (if length body \<noteq> 64
                then (Some (Error (''Failed to retrieve active token: '' @ body)), g\<lparr>Token := ''''\<rparr>,
                      h @ [tokenCall g signed])
                else (None, g\<lparr>Token := body\<rparr>, h @ [tokenCall g signed]))"
    using assms
    by (simp add: GetActiveToken_def http_Post_def http_do_def tokenCall_def SignedEnvelope_unfold Let_def)
  have del: "\<forall>h' ID. NewRequestError e (URL (deleteCall (g\<lparr>Token := body\<rparr>) ID)) = None \<longrightarrow>
                  snd (RemoveFileByID e h' (g\<lparr>Token := body\<rparr>) ID) =
                    h' @ [\<lparr>Method = ''DELETE'',
                           URL = ''https://'' @ Hostname g @ ''/kurjun/rest/raw/delete?id='' @ ID @ ''&token='' @ body,
                           Body = NoBody\<rparr>]"
    using RemoveFileByID_calls [of e "g\<lparr>Token := body\<rparr>"] by (simp add: deleteCall_def)
  have up: "\<forall>h' filename contents.
                  fs e filename = File (Inr contents)
                  \<and> NewRequestError e (URL (uploadCall e (g\<lparr>Token := body\<rparr>) filename contents)) = None \<longrightarrow>
                  snd (UploadFile e h' (g\<lparr>Token := body\<rparr>) filename) =
                    h' @ [\<lparr>Method = ''POST'', URL = ''https://'' @ Hostname g @ ''/kurjun/rest/raw/upload'',
                           Body = MultipartBody [FormFile ''file'' (Base e filename) contents,
                                                 FormField ''token'' body]\<rparr>]"
    using UploadFile_calls [of e _ _ "g\<lparr>Token := body\<rparr>"] by (simp add: uploadCall_def)
  show ?thesis using run del up by simp
qed

text \<open>A token of 64 characters is stored and attached; the body \<open>denied\<close> is reported.\<close>

theorem GetActiveToken_by_length_witness:
  "server (exampleEnv uploadDir [Response 200 ''200 OK'' (Inr exampleToken)]) ([] @ [tokenCall exampleServer ''SIG''])
     = Response 200 ''200 OK'' (Inr exampleToken)
   \<and> length exampleToken = 64
   \<and> GetActiveToken (exampleEnv uploadDir [Response 200 ''200 OK'' (Inr exampleToken)]) [] exampleServer ''SIG''
       = (None, exampleServer\<lparr>Token := exampleToken\<rparr>, [] @ [tokenCall exampleServer ''SIG''])
   \<and> snd (RemoveFileByID (exampleEnv uploadDir [Response 200 ''200 OK'' (Inr exampleToken)]) []
            (exampleServer\<lparr>Token := exampleToken\<rparr>) ''f-1'')
       = [] @ [\<lparr>Method = ''DELETE'',
                URL = ''https://'' @ Hostname exampleServer @ ''/kurjun/rest/raw/delete?id='' @ ''f-1''
                        @ ''&token='' @ exampleToken,
                Body = NoBody\<rparr>]
   \<and> snd (UploadFile (exampleEnv uploadDir [Response 200 ''200 OK'' (Inr exampleToken)]) []
            (exampleServer\<lparr>Token := exampleToken\<rparr>) ''/tmp/libgorjun-test'')
       = [] @ [\<lparr>Method = ''POST'', URL = ''https://'' @ Hostname exampleServer @ ''/kurjun/rest/raw/upload'',
                Body = MultipartBody [FormFile ''file''
                                        (Base (exampleEnv uploadDir [Response 200 ''200 OK'' (Inr exampleToken)])
                                           ''/tmp/libgorjun-test'')
                                        ''This is a test file\<newline>'',
                                      FormField ''token'' exampleToken]\<rparr>]
   \<and> server (exampleEnv [] [Response 200 ''200 OK'' (Inr ''denied'')]) ([] @ [tokenCall exampleServer ''SIG''])
     = Response 200 ''200 OK'' (Inr ''denied'')
   \<and> length ''denied'' \<noteq> 64
   \<and> GetActiveToken (exampleEnv [] [Response 200 ''200 OK'' (Inr ''denied'')]) [] exampleServer ''SIG''
       = (Some (Error (''Failed to retrieve active token: '' @ ''denied'')), exampleServer\<lparr>Token := ''''\<rparr>,
          [] @ [tokenCall exampleServer ''SIG''])"
proof -
  let ?e = "exampleEnv uploadDir [Response 200 ''200 OK'' (Inr exampleToken)]"
  let ?e' = "exampleEnv [] [Response 200 ''200 OK'' (Inr ''denied'')]"
  have accept: "server ?e ([] @ [tokenCall exampleServer ''SIG'']) = Response 200 ''200 OK'' (Inr exampleToken)"
    by (simp add: exampleEnv_def scripted_def)
  have len: "length exampleToken = 64"
    by (simp add: exampleToken_def)
  have reject: "server ?e' ([] @ [tokenCall exampleServer ''SIG'']) = Response 200 ''200 OK'' (Inr ''denied'')"
    by (simp add: exampleEnv_def scripted_def)
  have len': "length ''denied'' \<noteq> 64"
    by simp
  have url: "NewRequestError ?e u = None" for u
    by (simp add: exampleEnv_def)
  have opened: "fs ?e ''/tmp/libgorjun-test'' = File (Inr ''This is a test file\<newline>'')"
    by (simp add: exampleEnv_def uploadDir_def filesOf_def)
  note yes = GetActiveToken_by_length [OF accept]
  note no = GetActiveToken_by_length [OF reject]
  have a1: "GetActiveToken ?e [] exampleServer ''SIG''
       = (None, exampleServer\<lparr>Token := exampleToken\<rparr>, [] @ [tokenCall exampleServer ''SIG''])"
    using yes len by blast
  have a2: "snd (RemoveFileByID ?e [] (exampleServer\<lparr>Token := exampleToken\<rparr>) ''f-1'')
       = [] @ [\<lparr>Method = ''DELETE'',
                URL = ''https://'' @ Hostname exampleServer @ ''/kurjun/rest/raw/delete?id='' @ ''f-1''
                        @ ''&token='' @ exampleToken,
                Body = NoBody\<rparr>]"
    using yes len url by blast
  have a3: "snd (UploadFile ?e [] (exampleServer\<lparr>Token := exampleToken\<rparr>) ''/tmp/libgorjun-test'')
       = [] @ [\<lparr>Method = ''POST'', URL = ''https://'' @ Hostname exampleServer @ ''/kurjun/rest/raw/upload'',
                Body = MultipartBody [FormFile ''file'' (Base ?e ''/tmp/libgorjun-test'')
                                        ''This is a test file\<newline>'',
                                      FormField ''token'' exampleToken]\<rparr>]"
    using yes len url opened by blast
  have a4: "GetActiveToken ?e' [] exampleServer ''SIG''
       = (Some (Error (''Failed to retrieve active token: '' @ ''denied'')), exampleServer\<lparr>Token := ''''\<rparr>,
          [] @ [tokenCall exampleServer ''SIG''])"
    using no len' by blast
  from accept len a1 a2 a3 reject len' a4 show ?thesis by blast
qed

text \<open>
  C10. For every body of the token exchange whose length is not 64, \<open>GetActiveToken\<close>
  returns an error and leaves \<open>Token\<close> empty: the body is assigned to \<open>Token\<close> and cleared
  again, and neither it nor an earlier token stays.
\<close>

theorem GetActiveToken_rejected_clears_Token:
  assumes "server e (h @ [tokenCall g signed]) = Response code status (Inr body)"
    and "length body \<noteq> 64"
  shows "fst (GetActiveToken e h g signed) \<noteq> None
         \<and> Token (fst (snd (GetActiveToken e h g signed))) = ''''"
  using assms
  by (simp add: GetActiveToken_def http_Post_def http_do_def tokenCall_def SignedEnvelope_unfold Let_def)

text \<open>A session that held a token from an earlier exchange loses it when the body is rejected.\<close>

theorem GetActiveToken_rejected_clears_Token_witness:
  "server (exampleEnv [] [Response 200 ''200 OK'' (Inr ''denied'')])
      ([] @ [tokenCall (exampleServer\<lparr>Token := exampleToken\<rparr>) ''SIG''])
     = Response 200 ''200 OK'' (Inr ''denied'')
   \<and> length ''denied'' \<noteq> 64
   \<and> fst (GetActiveToken (exampleEnv [] [Response 200 ''200 OK'' (Inr ''denied'')]) []
            (exampleServer\<lparr>Token := exampleToken\<rparr>) ''SIG'') \<noteq> None
   \<and> Token (fst (snd (GetActiveToken (exampleEnv [] [Response 200 ''200 OK'' (Inr ''denied'')]) []
                        (exampleServer\<lparr>Token := exampleToken\<rparr>) ''SIG''))) = ''''"
proof -
  have reject: "server (exampleEnv [] [Response 200 ''200 OK'' (Inr ''denied'')])
      ([] @ [tokenCall (exampleServer\<lparr>Token := exampleToken\<rparr>) ''SIG''])
     = Response 200 ''200 OK'' (Inr ''denied'')"
    by (simp add: exampleEnv_def scripted_def)
  have len: "length ''denied'' \<noteq> 64"
    by simp
  from GetActiveToken_rejected_clears_Token [OF reject len] reject len show ?thesis by blast
qed

section \<open>The challenge request\<close>

text \<open>
  C5, as claimed, fails for the empty body: \<open>GetAuthTokenCode\<close> does not inspect the body,
  it stores the empty string as the challenge code and returns nil.
\<close>

theorem GetAuthTokenCode_empty_body_counterexample:
  "GetAuthTokenCode (exampleEnv [] [Response 200 ''200 OK'' (Inr '''')]) [] (exampleServer\<lparr>TokenCode := ''old''\<rparr>)
     = (None, exampleServer\<lparr>TokenCode := ''''\<rparr>, [challengeCall exampleServer])"
  by (simp add: GetAuthTokenCode_def http_Get_def http_do_def exampleEnv_def scripted_def
        challengeCall_def exampleServer_def)

text \<open>
  C5, amended. For every challenge request: an error of the HTTP call or of reading the
  response body makes \<open>GetAuthTokenCode\<close> fail with an error, the challenge code left as it
  was; a body that is read, whatever it is (the empty one too), is stored as the challenge
  code and the request succeeds.
\<close>

theorem GetAuthTokenCode_outcomes:
  "(server e (h @ [challengeCall g]) = NoResponse err \<longrightarrow>
      GetAuthTokenCode e h g =
        (Some (Error (''Failed to retrieve unsigned token: '' @ err)), g, h @ [challengeCall g]))
   \<and> (server e (h @ [challengeCall g]) = Response code status (Inl err) \<longrightarrow>
      GetAuthTokenCode e h g =
        (Some (Error (''Failed to read body from '' @ Hostname g @ '': '' @ err)), g, h @ [challengeCall g]))
   \<and> (server e (h @ [challengeCall g]) = Response code status (Inr data) \<longrightarrow>
      GetAuthTokenCode e h g = (None, g\<lparr>TokenCode := data\<rparr>, h @ [challengeCall g]))"
  by (simp add: GetAuthTokenCode_def http_Get_def http_do_def challengeCall_def)

text \<open>A refused connection, a body that breaks off, and a challenge of 32 characters.\<close>

theorem GetAuthTokenCode_outcomes_witness:
  "server (exampleEnv [] []) ([] @ [challengeCall exampleServer]) = NoResponse ''dial tcp: connection refused''
   \<and> GetAuthTokenCode (exampleEnv [] []) [] exampleServer =
       (Some (Error ''Failed to retrieve unsigned token: dial tcp: connection refused''), exampleServer,
        [challengeCall exampleServer])
   \<and> server (exampleEnv [] [Response 200 ''200 OK'' (Inl ''unexpected EOF'')]) ([] @ [challengeCall exampleServer])
       = Response 200 ''200 OK'' (Inl ''unexpected EOF'')
   \<and> GetAuthTokenCode (exampleEnv [] [Response 200 ''200 OK'' (Inl ''unexpected EOF'')]) [] exampleServer =
       (Some (Error ''Failed to read body from cdn.example.org:8338: unexpected EOF''), exampleServer,
        [challengeCall exampleServer])
   \<and> server (exampleEnv [] [Response 200 ''200 OK'' (Inr ''0123456789abcdef0123456789abcdef'')])
        ([] @ [challengeCall exampleServer])
       = Response 200 ''200 OK'' (Inr ''0123456789abcdef0123456789abcdef'')
   \<and> GetAuthTokenCode (exampleEnv [] [Response 200 ''200 OK'' (Inr ''0123456789abcdef0123456789abcdef'')]) []
        exampleServer =
       (None, exampleServer\<lparr>TokenCode := ''0123456789abcdef0123456789abcdef''\<rparr>, [challengeCall exampleServer])"
proof -
  have r1: "server (exampleEnv [] []) ([] @ [challengeCall exampleServer]) = NoResponse ''dial tcp: connection refused''"
    by (simp add: exampleEnv_def scripted_def)
  have r2: "server (exampleEnv [] [Response 200 ''200 OK'' (Inl ''unexpected EOF'')]) ([] @ [challengeCall exampleServer])
       = Response 200 ''200 OK'' (Inl ''unexpected EOF'')"
    by (simp add: exampleEnv_def scripted_def)
  have r3: "server (exampleEnv [] [Response 200 ''200 OK'' (Inr ''0123456789abcdef0123456789abcdef'')])
        ([] @ [challengeCall exampleServer])
       = Response 200 ''200 OK'' (Inr ''0123456789abcdef0123456789abcdef'')"
    by (simp add: exampleEnv_def scripted_def)
  have host: "Hostname exampleServer = ''cdn.example.org:8338''"
    by (simp add: exampleServer_def)
  from r1 r2 r3 host
    GetAuthTokenCode_outcomes [of "exampleEnv [] []" "[]" exampleServer "''dial tcp: connection refused''"]
    GetAuthTokenCode_outcomes [of "exampleEnv [] [Response 200 ''200 OK'' (Inl ''unexpected EOF'')]" "[]"
       exampleServer "''unexpected EOF''" 200 "''200 OK''"]
    GetAuthTokenCode_outcomes [of "exampleEnv [] [Response 200 ''200 OK'' (Inr ''0123456789abcdef0123456789abcdef'')]" "[]"
       exampleServer _ 200 "''200 OK''" "''0123456789abcdef0123456789abcdef''"]
  show ?thesis by simp
qed

section \<open>Key lookup\<close>

text \<open>
  The loops of \<open>getKeyByEmail\<close> against the specification's reading. The inner loop only
  tests whether some identity carries the e-mail, so the order in which Go visits the map
  of identities does not matter.
\<close>

lemma identLoop_iff: "identLoop idents email \<longleftrightarrow> (\<exists>ident \<in> set idents. UserId_Email ident = email)"
  by (induction idents) auto

lemma identLoop_order:
  "set idents = set idents' \<Longrightarrow> identLoop idents email = identLoop idents' email"
  by (simp add: identLoop_iff)

lemma identLoop_entityMatches: "identLoop (Identities entity) email = entityMatches email entity"
  by (simp add: identLoop_iff entityMatches_def list_ex_iff)

lemma getKeyByEmail_find: "getKeyByEmail keyring email = List.find (entityMatches email) keyring"
  by (induction keyring) (simp_all add: identLoop_entityMatches)

lemma Open_Inr_not_Missing: "Open e path = Inr rd \<Longrightarrow> \<not> StatIsNotExist e path"
  by (auto simp: Open_def StatIsNotExist_def split: file_state.splits)

lemma SignToken_public_missing:
  assumes "GPGDirectory g \<noteq> ''''"
    and "Open e (GPGDirectory g @ ''/pubring.gpg'') = Inr pukFile"
    and "ReadKeyRing e pukFile = Inr pubring"
    and "getKeyByEmail pubring (Email g) = None"
  shows "SignToken e g token = Inl (Error (''Public key for '' @ Email g @ '' was not found''))"
  using assms Open_Inr_not_Missing [OF assms(2)] by (simp add: SignToken_def)

lemma SignToken_private_missing:
  assumes "GPGDirectory g \<noteq> ''''"
    and "Open e (GPGDirectory g @ ''/pubring.gpg'') = Inr pukFile"
    and "ReadKeyRing e pukFile = Inr pubring"
    and "getKeyByEmail pubring (Email g) = Some publicKey"
    and "Open e (GPGDirectory g @ ''/secring.gpg'') = Inr priFile"
    and "ReadKeyRing e priFile = Inr secring"
    and "getKeyByEmail secring (Email g) = None"
  shows "SignToken e g token = Inl (Error (''Private key for '' @ Email g @ '' was not found''))"
  using assms Open_Inr_not_Missing [OF assms(2)] by (simp add: SignToken_def)

lemma SignToken_resolved:
  assumes "GPGDirectory g \<noteq> ''''"
    and "Open e (GPGDirectory g @ ''/pubring.gpg'') = Inr pukFile"
    and "ReadKeyRing e pukFile = Inr pubring"
    and "getKeyByEmail pubring (Email g) = Some publicKey"
    and "Open e (GPGDirectory g @ ''/secring.gpg'') = Inr priFile"
    and "ReadKeyRing e priFile = Inr secring"
    and "getKeyByEmail secring (Email g) = Some privateKey"
  shows "SignToken e g token = signWith e g privateKey token"
  using assms Open_Inr_not_Missing [OF assms(2)] by (simp add: SignToken_def)

text \<open>
  C7. For every keyring and e-mail, \<open>getKeyByEmail\<close> returns the first entity in ring order
  one of whose identities has exactly that e-mail, and no entity when none matches; and
  \<open>SignToken\<close> reports a public keyring without a match and a private keyring without a
  match by two different errors.
\<close>

theorem getKeyByEmail_first_match:
  "getKeyByEmail keyring email = firstMatch keyring email
   \<and> (entityMatches email entity \<longleftrightarrow> (\<exists>ident \<in> set (Identities entity). UserId_Email ident = email))
   \<and> (getKeyByEmail keyring email = Some entity \<longleftrightarrow>
        (\<exists>before after. keyring = before @ entity # after \<and> entityMatches email entity
                         \<and> (\<forall>x \<in> set before. \<not> entityMatches email x)))
   \<and> (getKeyByEmail keyring email = None \<longleftrightarrow> (\<forall>x \<in> set keyring. \<not> entityMatches email x))
   \<and> (GPGDirectory g \<noteq> '''' \<and> Open e (GPGDirectory g @ ''/pubring.gpg'') = Inr pukFile
        \<and> ReadKeyRing e pukFile = Inr pubring \<and> getKeyByEmail pubring (Email g) = None \<longrightarrow>
        SignToken e g token = Inl (Error (''Public key for '' @ Email g @ '' was not found'')))
   \<and> (GPGDirectory g \<noteq> '''' \<and> Open e (GPGDirectory g @ ''/pubring.gpg'') = Inr pukFile
        \<and> ReadKeyRing e pukFile = Inr pubring \<and> getKeyByEmail pubring (Email g) = Some publicKey
        \<and> Open e (GPGDirectory g @ ''/secring.gpg'') = Inr priFile
        \<and> ReadKeyRing e priFile = Inr secring \<and> getKeyByEmail secring (Email g) = None \<longrightarrow>
        SignToken e g token = Inl (Error (''Private key for '' @ Email g @ '' was not found'')))
   \<and> ''Public key for '' @ Email g @ '' was not found'' \<noteq> ''Private key for '' @ Email g @ '' was not found''"
proof -
  have spec: "getKeyByEmail keyring email = firstMatch keyring email"
    by (simp add: getKeyByEmail_find firstMatch_def)
  have matches: "entityMatches email entity \<longleftrightarrow> (\<exists>ident \<in> set (Identities entity). UserId_Email ident = email)"
    by (simp add: entityMatches_def list_ex_iff)
  have found: "getKeyByEmail keyring email = Some entity \<longleftrightarrow>
        (\<exists>before after. keyring = before @ entity # after \<and> entityMatches email entity
                         \<and> (\<forall>x \<in> set before. \<not> entityMatches email x))"
  proof
    assume "getKeyByEmail keyring email = Some entity"
    then obtain i where i: "i < length keyring" "entityMatches email (keyring ! i)" "entity = keyring ! i"
        "\<forall>j<i. \<not> entityMatches email (keyring ! j)"
      by (auto simp: getKeyByEmail_find find_Some_iff)
    have "keyring = take i keyring @ entity # drop (Suc i) keyring"
      using i(1,3) by (simp add: id_take_nth_drop)
    moreover have "\<forall>x \<in> set (take i keyring). \<not> entityMatches email x"
      using i(1,4) by (auto simp: in_set_conv_nth)
    ultimately show "\<exists>before after. keyring = before @ entity # after \<and> entityMatches email entity
                         \<and> (\<forall>x \<in> set before. \<not> entityMatches email x)"
      using i(2,3) by blast
  next
    assume "\<exists>before after. keyring = before @ entity # after \<and> entityMatches email entity
                         \<and> (\<forall>x \<in> set before. \<not> entityMatches email x)"
    then obtain before after where k: "keyring = before @ entity # after" "entityMatches email entity"
        "\<forall>x \<in> set before. \<not> entityMatches email x"
      by blast
    have "List.find (entityMatches email) (before @ entity # after) = Some entity"
      using k(2,3) by (induction before) simp_all
    then show "getKeyByEmail keyring email = Some entity"
      by (simp add: getKeyByEmail_find k(1))
  qed
  have none: "getKeyByEmail keyring email = None \<longleftrightarrow> (\<forall>x \<in> set keyring. \<not> entityMatches email x)"
    by (auto simp: getKeyByEmail_find find_None_iff)
  have pub: "GPGDirectory g \<noteq> '''' \<and> Open e (GPGDirectory g @ ''/pubring.gpg'') = Inr pukFile
        \<and> ReadKeyRing e pukFile = Inr pubring \<and> getKeyByEmail pubring (Email g) = None \<longrightarrow>
        SignToken e g token = Inl (Error (''Public key for '' @ Email g @ '' was not found''))"
    using SignToken_public_missing by blast
  have pri: "GPGDirectory g \<noteq> '''' \<and> Open e (GPGDirectory g @ ''/pubring.gpg'') = Inr pukFile
        \<and> ReadKeyRing e pukFile = Inr pubring \<and> getKeyByEmail pubring (Email g) = Some publicKey
        \<and> Open e (GPGDirectory g @ ''/secring.gpg'') = Inr priFile
        \<and> ReadKeyRing e priFile = Inr secring \<and> getKeyByEmail secring (Email g) = None \<longrightarrow>
        SignToken e g token = Inl (Error (''Private key for '' @ Email g @ '' was not found''))"
    using SignToken_private_missing by blast
  have differ: "''Public key for '' @ Email g @ '' was not found'' \<noteq> ''Private key for '' @ Email g @ '' was not found''"
    by simp
  from spec matches found none pub pri differ show ?thesis by blast
qed

text \<open>
  Two entities of the public keyring carry Alice's e-mail, the first of them as its second
  identity: that one is returned. Nobody is Carol; Bob has a public key and no private key.
\<close>

theorem getKeyByEmail_first_match_witness:
  "getKeyByEmail examplePubring ''alice@example.com''
     = Some \<lparr>PrimaryKey = ''A11CE1'', Identities = [aliceWork, alice], PrivateKey = None\<rparr>
   \<and> examplePubring = [bobEntity] @ \<lparr>PrimaryKey = ''A11CE1'', Identities = [aliceWork, alice], PrivateKey = None\<rparr>
                         # [\<lparr>PrimaryKey = ''A11CE2'', Identities = [alice], PrivateKey = None\<rparr>]
   \<and> entityMatches ''alice@example.com'' \<lparr>PrimaryKey = ''A11CE1'', Identities = [aliceWork, alice], PrivateKey = None\<rparr>
   \<and> entityMatches ''alice@example.com'' \<lparr>PrimaryKey = ''A11CE2'', Identities = [alice], PrivateKey = None\<rparr>
   \<and> \<not> entityMatches ''alice@example.com'' bobEntity
   \<and> \<not> list_ex (entityMatches ''carol@example.com'') examplePubring
   \<and> getKeyByEmail examplePubring ''carol@example.com'' = None
   \<and> SignToken (exampleEnv classicDir []) (exampleServer\<lparr>Email := ''carol@example.com''\<rparr>) ''111''
       = Inl (Error (''Public key for '' @ ''carol@example.com'' @ '' was not found''))
   \<and> SignToken (exampleEnv classicDir []) (exampleServer\<lparr>Email := ''bob@example.com''\<rparr>) ''111''
       = Inl (Error (''Private key for '' @ ''bob@example.com'' @ '' was not found''))"
proof -
  let ?a1 = "\<lparr>PrimaryKey = ''A11CE1'', Identities = [aliceWork, alice], PrivateKey = None\<rparr>"
  let ?a2 = "\<lparr>PrimaryKey = ''A11CE2'', Identities = [alice], PrivateKey = None\<rparr>"
  let ?e = "exampleEnv classicDir []"
  let ?carol = "exampleServer\<lparr>Email := ''carol@example.com''\<rparr>"
  let ?bob = "exampleServer\<lparr>Email := ''bob@example.com''\<rparr>"
  have ring: "examplePubring = [bobEntity] @ ?a1 # [?a2]"
    by (simp add: examplePubring_def)
  have m1: "entityMatches ''alice@example.com'' ?a1"
    by (simp add: entityMatches_def alice_def aliceWork_def)
  have m2: "entityMatches ''alice@example.com'' ?a2"
    by (simp add: entityMatches_def alice_def)
  have nb: "\<forall>x \<in> set [bobEntity]. \<not> entityMatches ''alice@example.com'' x"
    by (simp add: entityMatches_def bobEntity_def bob_def)
  have nc: "\<forall>x \<in> set examplePubring. \<not> entityMatches ''carol@example.com'' x"
    by (simp add: entityMatches_def examplePubring_def bobEntity_def bob_def alice_def aliceWork_def)
  have dir: "GPGDirectory g' \<noteq> ''''" if "g' = exampleServer\<lparr>Email := m\<rparr>" for g' m
    using that by (simp add: exampleServer_def)
  have pubfile: "Open ?e (GPGDirectory (exampleServer\<lparr>Email := m\<rparr>) @ ''/pubring.gpg'') = Inr (Inr ''PUBRING'')" for m
    by (simp add: Open_def exampleEnv_def exampleServer_def classicDir_def filesOf_def)
  have secfile: "Open ?e (GPGDirectory (exampleServer\<lparr>Email := m\<rparr>) @ ''/secring.gpg'') = Inr (Inr ''SECRING'')" for m
    by (simp add: Open_def exampleEnv_def exampleServer_def classicDir_def filesOf_def)
  have pubring: "ReadKeyRing ?e (Inr ''PUBRING'') = Inr examplePubring"
    by (simp add: exampleEnv_def exampleReadKeyRing_def)
  have secring: "ReadKeyRing ?e (Inr ''SECRING'') = Inr exampleSecring"
    by (simp add: exampleEnv_def exampleReadKeyRing_def)
  have found: "getKeyByEmail examplePubring ''alice@example.com'' = Some ?a1"
    using getKeyByEmail_first_match [of examplePubring "''alice@example.com''" ?a1] ring m1 nb by blast
  have none: "getKeyByEmail examplePubring ''carol@example.com'' = None"
    using getKeyByEmail_first_match [of examplePubring "''carol@example.com''"] nc by blast
  have bobpub: "getKeyByEmail examplePubring (Email ?bob) = Some bobEntity"
    by (simp add: examplePubring_def bobEntity_def bob_def)
  have bobsec: "getKeyByEmail exampleSecring (Email ?bob) = None"
    by (simp add: exampleSecring_def aliceSecret_def alice_def aliceWork_def)
  have carol: "SignToken ?e ?carol ''111'' = Inl (Error (''Public key for '' @ Email ?carol @ '' was not found''))"
    using getKeyByEmail_first_match [where g = ?carol and e = ?e and pukFile = "Inr ''PUBRING''"
        and pubring = examplePubring and token = "''111''"]
      dir [OF refl] pubfile pubring none by simp
  have bob: "SignToken ?e ?bob ''111'' = Inl (Error (''Private key for '' @ Email ?bob @ '' was not found''))"
    using getKeyByEmail_first_match [where g = ?bob and e = ?e and pukFile = "Inr ''PUBRING''"
        and pubring = examplePubring and token = "''111''" and publicKey = bobEntity
        and priFile = "Inr ''SECRING''" and secring = exampleSecring]
      dir [OF refl] pubfile secfile pubring secring bobpub bobsec by simp
  have nb': "\<not> entityMatches ''alice@example.com'' bobEntity"
    using nb by simp
  have nc': "\<not> list_ex (entityMatches ''carol@example.com'') examplePubring"
    using nc by (simp add: list_ex_iff)
  from found ring m1 m2 nb' nc' none carol bob show ?thesis by simp
qed

section \<open>Signing with a passphrase-protected key\<close>

text \<open>
  C4. Let the private key found for the e-mail be encrypted, and let the library behave as
  documented: \<open>ArmoredDetachSign\<close> refuses an entity whose private key is encrypted, and a
  \<open>Decrypt\<close> that returns an error leaves the key encrypted. Then, if the passphrase is
  empty or fails to decrypt the key, \<open>SignToken\<close> fails with the error
  \<open>Failed to sign token\<close>; and if the passphrase decrypts the key, \<open>SignToken\<close> returns the
  signature that the library makes with the decrypted key.
\<close>

theorem SignToken_encrypted_key:
  assumes "GPGDirectory g \<noteq> ''''"
    and "Open e (GPGDirectory g @ ''/pubring.gpg'') = Inr pukFile"
    and "ReadKeyRing e pukFile = Inr pubring"
    and "getKeyByEmail pubring (Email g) = Some publicKey"
    and "Open e (GPGDirectory g @ ''/secring.gpg'') = Inr priFile"
    and "ReadKeyRing e priFile = Inr secring"
    and "getKeyByEmail secring (Email g) = Some privateKey"
    and key: "PrivateKey privateKey = Some k" "Encrypted k"
    and sign_refuses: "\<And>entity message k'. PrivateKey entity = Some k' \<Longrightarrow> Encrypted k' \<Longrightarrow>
                         \<exists>err. ArmoredDetachSign e entity message = Inl err"
    and decrypt_fails: "\<And>passphrase k' err. Decrypt e k passphrase = (k', Some err) \<Longrightarrow> Encrypted k'"
  shows "(Passphrase g = '''' \<or> snd (Decrypt e k (Passphrase g)) \<noteq> None \<longrightarrow>
            (\<exists>err. SignToken e g token = Inl (Error (''Failed to sign token: '' @ err))))
         \<and> (Passphrase g \<noteq> '''' \<and> snd (Decrypt e k (Passphrase g)) = None
            \<and> ArmoredDetachSign e (privateKey\<lparr>PrivateKey := Some (fst (Decrypt e k (Passphrase g)))\<rparr>) token = Inr out
            \<longrightarrow> SignToken e g token = Inr out)"
proof -
  have run: "SignToken e g token = signWith e g privateKey token"
    using assms(1-7) by (rule SignToken_resolved)
  have empty: "\<exists>err. SignToken e g token = Inl (Error (''Failed to sign token: '' @ err))"
    if "Passphrase g = ''''"
  proof -
    obtain err where "ArmoredDetachSign e privateKey token = Inl err"
      using sign_refuses [OF key] by blast
    then show ?thesis using that run by (simp add: signWith_def)
  qed
  have wrong: "\<exists>err. SignToken e g token = Inl (Error (''Failed to sign token: '' @ err))"
    if ne: "Passphrase g \<noteq> ''''" and bad: "snd (Decrypt e k (Passphrase g)) \<noteq> None"
  proof -
    obtain k' derr where d: "Decrypt e k (Passphrase g) = (k', Some derr)"
      using bad by (cases "Decrypt e k (Passphrase g)") auto
    then have "Encrypted k'" by (rule decrypt_fails)
    moreover have "PrivateKey (privateKey\<lparr>PrivateKey := Some k'\<rparr>) = Some k'" by simp
    ultimately obtain err where "ArmoredDetachSign e (privateKey\<lparr>PrivateKey := Some k'\<rparr>) token = Inl err"
      using sign_refuses by blast
    then show ?thesis using ne run key(1) d by (simp add: signWith_def)
  qed
  have right: "SignToken e g token = Inr out"
    if "Passphrase g \<noteq> ''''"
      and "ArmoredDetachSign e (privateKey\<lparr>PrivateKey := Some (fst (Decrypt e k (Passphrase g)))\<rparr>) token = Inr out"
    using that run key(1) by (simp add: signWith_def)
  from empty wrong right show ?thesis by blast
qed

text \<open>Alice's locked key: no passphrase, a wrong one, and the right one.\<close>

theorem SignToken_encrypted_key_witness:
  "PrivateKey aliceSecret = Some lockedKey \<and> Encrypted lockedKey
   \<and> (\<exists>err. SignToken (exampleEnv classicDir []) exampleServer ''111''
               = Inl (Error (''Failed to sign token: '' @ err)))
   \<and> snd (Decrypt (exampleEnv classicDir []) lockedKey ''wrong'') \<noteq> None
   \<and> (\<exists>err. SignToken (exampleEnv classicDir []) (exampleServer\<lparr>Passphrase := ''wrong''\<rparr>) ''111''
               = Inl (Error (''Failed to sign token: '' @ err)))
   \<and> snd (Decrypt (exampleEnv classicDir []) lockedKey ''correct horse'') = None
   \<and> SignToken (exampleEnv classicDir []) (exampleServer\<lparr>Passphrase := ''correct horse''\<rparr>) ''111''
       = Inr ''-----BEGIN PGP SIGNATURE-----\<newline>\<newline>A11CE1:111\<newline>-----END PGP SIGNATURE-----''"
proof -
  let ?e = "exampleEnv classicDir []"
  let ?a1 = "\<lparr>PrimaryKey = ''A11CE1'', Identities = [aliceWork, alice], PrivateKey = None\<rparr>"
  have dir: "GPGDirectory (exampleServer\<lparr>Passphrase := p\<rparr>) \<noteq> ''''" for p
    by (simp add: exampleServer_def)
  have pubfile: "Open ?e (GPGDirectory (exampleServer\<lparr>Passphrase := p\<rparr>) @ ''/pubring.gpg'') = Inr (Inr ''PUBRING'')" for p
    by (simp add: Open_def exampleEnv_def exampleServer_def classicDir_def filesOf_def)
  have secfile: "Open ?e (GPGDirectory (exampleServer\<lparr>Passphrase := p\<rparr>) @ ''/secring.gpg'') = Inr (Inr ''SECRING'')" for p
    by (simp add: Open_def exampleEnv_def exampleServer_def classicDir_def filesOf_def)
  have pubring: "ReadKeyRing ?e (Inr ''PUBRING'') = Inr examplePubring"
    by (simp add: exampleEnv_def exampleReadKeyRing_def)
  have secring: "ReadKeyRing ?e (Inr ''SECRING'') = Inr exampleSecring"
    by (simp add: exampleEnv_def exampleReadKeyRing_def)
  have pub: "getKeyByEmail examplePubring (Email (exampleServer\<lparr>Passphrase := p\<rparr>)) = Some ?a1" for p
    by (simp add: examplePubring_def bobEntity_def bob_def alice_def aliceWork_def exampleServer_def)
  have sec: "getKeyByEmail exampleSecring (Email (exampleServer\<lparr>Passphrase := p\<rparr>)) = Some aliceSecret" for p
    by (simp add: exampleSecring_def aliceSecret_def alice_def aliceWork_def exampleServer_def)
  have key: "PrivateKey aliceSecret = Some lockedKey" "Encrypted lockedKey"
    by (simp_all add: aliceSecret_def lockedKey_def)
  have refuses: "\<exists>err. ArmoredDetachSign ?e entity message = Inl err"
    if "PrivateKey entity = Some k'" "Encrypted k'" for entity message k'
    using that by (simp add: exampleEnv_def exampleSign_def)
  have keeps: "Encrypted k'" if "Decrypt ?e lockedKey passphrase = (k', Some err)" for passphrase k' err
    using that by (auto simp: exampleEnv_def exampleDecrypt_def lockedKey_def split: if_splits)
  have at:
    "(p = '''' \<or> snd (Decrypt ?e lockedKey p) \<noteq> None \<longrightarrow>
        (\<exists>err. SignToken ?e (exampleServer\<lparr>Passphrase := p\<rparr>) ''111''
                 = Inl (Error (''Failed to sign token: '' @ err))))
     \<and> (p \<noteq> '''' \<and> snd (Decrypt ?e lockedKey p) = None
        \<and> ArmoredDetachSign ?e (aliceSecret\<lparr>PrivateKey := Some (fst (Decrypt ?e lockedKey p))\<rparr>) ''111'' = Inr out
        \<longrightarrow> SignToken ?e (exampleServer\<lparr>Passphrase := p\<rparr>) ''111'' = Inr out)" for p out
    using SignToken_encrypted_key [where g = "exampleServer\<lparr>Passphrase := p\<rparr>" and e = ?e
        and token = "''111''" and out = out,
        OF dir pubfile pubring pub secfile secring sec key refuses keeps]
    by simp
  have same: "exampleServer\<lparr>Passphrase := ''''\<rparr> = exampleServer"
    by (simp add: exampleServer_def)
  have empty: "\<exists>err. SignToken ?e exampleServer ''111'' = Inl (Error (''Failed to sign token: '' @ err))"
    using at [of "''''"] same by simp
  have bad: "snd (Decrypt ?e lockedKey ''wrong'') \<noteq> None"
    by (simp add: exampleEnv_def exampleDecrypt_def lockedKey_def)
  have wrong: "\<exists>err. SignToken ?e (exampleServer\<lparr>Passphrase := ''wrong''\<rparr>) ''111''
                       = Inl (Error (''Failed to sign token: '' @ err))"
    using at [of "''wrong''"] bad by blast
  have good: "snd (Decrypt ?e lockedKey ''correct horse'') = None"
    by (simp add: exampleEnv_def exampleDecrypt_def lockedKey_def)
  have signs: "ArmoredDetachSign ?e (aliceSecret\<lparr>PrivateKey := Some (fst (Decrypt ?e lockedKey ''correct horse''))\<rparr>) ''111''
                 = Inr ''-----BEGIN PGP SIGNATURE-----\<newline>\<newline>A11CE1:111\<newline>-----END PGP SIGNATURE-----''"
    by (simp add: exampleEnv_def exampleDecrypt_def exampleSign_def lockedKey_def aliceSecret_def)
  have right: "SignToken ?e (exampleServer\<lparr>Passphrase := ''correct horse''\<rparr>) ''111''
       = Inr ''-----BEGIN PGP SIGNATURE-----\<newline>\<newline>A11CE1:111\<newline>-----END PGP SIGNATURE-----''"
    using at [of "''correct horse''"] good signs by simp
  from key empty bad wrong good right show ?thesis by blast
qed

end
